theory Spec2Isabelle
  imports Main
begin

section \<open>Python values, exceptions and the log\<close>

text \<open>
  The worker API of \<^verbatim>\<open>openassessment/assessment/api/ai_worker.py\<close> passes
  JSON-like Python values around: training answers are either text or a dict, the
  returned parameters are dicts. A dict with string keys is a map from strings.
\<close>

datatype pyval =
    PyNone
  | PyBool bool
  | PyInt int
  | PyStr string
  | PyList "pyval list"
  | PyDict "string \<Rightarrow> pyval option"

type_synonym pydict = "string \<rightharpoonup> pyval"

type_synonym uuid = string

text \<open>
  The exceptions of the model layer and of the ORM that the API module names in its
  \<^verbatim>\<open>except\<close> clauses.
\<close>

datatype exn =
    DoesNotExist
  | DatabaseError
  | ValueError
  | IOError
  | NoTrainingExamples
  | IncompleteClassifierSet
  | ClassifierSerializeError
  | ClassifierUploadError

text \<open>
  What an API call raises: one of the four errors of
  \<^verbatim>\<open>openassessment.assessment.errors\<close>, or an exception that no
  \<^verbatim>\<open>except\<close> clause of the function catches. The message strings are left out.
\<close>

datatype error =
    AITrainingRequestError
  | AITrainingInternalError
  | AIGradingRequestError
  | AIGradingInternalError
  | Uncaught exn

text \<open>\<^verbatim>\<open>logger.warning\<close> and \<^verbatim>\<open>logger.exception\<close> append a record to the log.\<close>

datatype log_record = LogWarning | LogException

section \<open>The stored model objects\<close>

text \<open>
  Modelled from the spec: the model classes \<^verbatim>\<open>AIClassifierSet\<close>,
  \<^verbatim>\<open>AIGradingWorkflow\<close> and \<^verbatim>\<open>AITrainingWorkflow\<close> are declared in
  \<^verbatim>\<open>openassessment.assessment.models\<close>, which is not among the sources. The records
  hold the attributes that the API reads, with the types the spec and the docstrings
  of the API give them, and what completion records: the flag \<^verbatim>\<open>is_complete\<close> and,
  for a grading workflow, the per-criterion integer scores. The criterion names of the
  rubric a training workflow trains for are kept with the workflow.

  \<^verbatim>\<open>classifier_set.classifiers_dict\<close> is a property: reading it loads the serialized
  classifiers. The API guards the read with
  \<^verbatim>\<open>except (ValueError, IOError, DatabaseError)\<close>, so a read yields either an exception
  or the mapping from criterion names to serialized classifiers.
\<close>

record AIClassifierSet =
  classifiers_dict :: "exn + pydict"

record criterion =
  name :: string

record criterion_option =
  criterion :: criterion
  points :: int

record training_example =
  answer :: pyval
  options_selected :: "criterion_option list"

record AIGradingWorkflow =
  essay_text :: string
  algorithm_id :: string
  classifier_set :: "AIClassifierSet option"
  is_complete :: bool
  assessment :: "(string \<rightharpoonup> int) option"

record AITrainingWorkflow =
  training_examples :: "training_example list"
  rubric :: "string list"
  algorithm_id :: string
  classifier_set :: "AIClassifierSet option"
  is_complete :: bool

text \<open>
  The state the API works on: the two workflow tables, keyed by UUID, the log, and
  the condition of the database connection. \<open>db_read_error\<close> makes every query raise
  \<^verbatim>\<open>DatabaseError\<close>, \<open>db_write_error\<close> every save.
\<close>

record state =
  grading_workflows :: "uuid \<rightharpoonup> AIGradingWorkflow"
  training_workflows :: "uuid \<rightharpoonup> AITrainingWorkflow"
  db_read_error :: bool
  db_write_error :: bool
  log_records :: "log_record list"

definition logger_warning :: "state \<Rightarrow> state" where
  "logger_warning s = s\<lparr>log_records := log_records s @ [LogWarning]\<rparr>"

definition logger_exception :: "state \<Rightarrow> state" where
  "logger_exception s = s\<lparr>log_records := log_records s @ [LogException]\<rparr>"

text \<open>
  \<^verbatim>\<open>AIGradingWorkflow.objects.get(uuid=...)\<close> and its training counterpart: the
  wanted row, \<^verbatim>\<open>DoesNotExist\<close> when no row has the UUID, \<^verbatim>\<open>DatabaseError\<close> when
  the query fails.
\<close>

definition AIGradingWorkflow_objects_get :: "state \<Rightarrow> uuid \<Rightarrow> exn + AIGradingWorkflow" where
  "AIGradingWorkflow_objects_get s u =
     (if db_read_error s then Inl DatabaseError
      else case grading_workflows s u of
             None \<Rightarrow> Inl DoesNotExist
           | Some w \<Rightarrow> Inr w)"

definition AITrainingWorkflow_objects_get :: "state \<Rightarrow> uuid \<Rightarrow> exn + AITrainingWorkflow" where
  "AITrainingWorkflow_objects_get s u =
     (if db_read_error s then Inl DatabaseError
      else case training_workflows s u of
             None \<Rightarrow> Inl DoesNotExist
           | Some w \<Rightarrow> Inr w)"

text \<open>
  Modelled from the spec: \<^verbatim>\<open>AIGradingWorkflow.complete\<close> is defined in
  \<^verbatim>\<open>openassessment.assessment.models\<close>, which is not among the sources. The spec says
  that completion "records per-criterion integer scores and marks itself complete";
  the API expects it to raise \<^verbatim>\<open>DatabaseError\<close> when the save fails. The workflow
  object is saved under the UUID it was fetched with.
\<close>

definition AIGradingWorkflow_complete ::
  "state \<Rightarrow> uuid \<Rightarrow> AIGradingWorkflow \<Rightarrow> (string \<rightharpoonup> int) \<Rightarrow> (exn + unit) \<times> state" where
  "AIGradingWorkflow_complete s u w criterion_scores =
     (if db_write_error s then (Inl DatabaseError, s)
      else (Inr (),
            s\<lparr>grading_workflows := (grading_workflows s)
                 (u \<mapsto> w\<lparr>AIGradingWorkflow.is_complete := True,
                          assessment := Some criterion_scores\<rparr>)\<rparr>))"

text \<open>
  Modelled from the spec: \<^verbatim>\<open>AITrainingWorkflow.complete\<close> is defined in
  \<^verbatim>\<open>openassessment.assessment.models\<close>, which is not among the sources. The spec says
  that a training workflow "transitions from incomplete to complete when a classifier
  set is attached", that it "cannot be marked complete without at least one training
  example", and that a classifier set "maps rubric criterion names to serialized
  classifier blobs": a classifier set whose criterion names are not those of the
  rubric is refused as \<^verbatim>\<open>IncompleteClassifierSet\<close>. A failed save raises
  \<^verbatim>\<open>DatabaseError\<close>. An exception leaves the stored workflow as it was.
\<close>

definition AITrainingWorkflow_complete ::
  "state \<Rightarrow> uuid \<Rightarrow> AITrainingWorkflow \<Rightarrow> pydict \<Rightarrow> (exn + unit) \<times> state" where
  "AITrainingWorkflow_complete s u w classifiers =
     (if training_examples w = [] then (Inl NoTrainingExamples, s)
      else if dom classifiers \<noteq> set (rubric w) then (Inl IncompleteClassifierSet, s)
      else if db_write_error s then (Inl DatabaseError, s)
      else (Inr (),
            s\<lparr>training_workflows := (training_workflows s)
                 (u \<mapsto> w\<lparr>AITrainingWorkflow.classifier_set :=
                            Some \<lparr>classifiers_dict = Inr classifiers\<rparr>,
                          AITrainingWorkflow.is_complete := True\<rparr>)\<rparr>))"

section \<open>The worker API\<close>

subsection \<open>\<^verbatim>\<open>get_grading_task_params\<close>\<close>

text \<open>
  The lookup is in a \<^verbatim>\<open>try\<close> of its own: \<^verbatim>\<open>DoesNotExist\<close> becomes a request
  error, \<^verbatim>\<open>DatabaseError\<close> is logged and becomes an internal error. A missing
  classifier set is logged and is an internal error. Building the result reads
  \<^verbatim>\<open>classifiers_dict\<close>; \<^verbatim>\<open>ValueError\<close>, \<^verbatim>\<open>IOError\<close> and \<^verbatim>\<open>DatabaseError\<close> raised
  there are logged and become internal errors.
\<close>

definition get_grading_task_params :: "state \<Rightarrow> uuid \<Rightarrow> (error + pydict) \<times> state" where
  "get_grading_task_params s grading_workflow_uuid =
     (case AIGradingWorkflow_objects_get s grading_workflow_uuid of
        Inl ex \<Rightarrow>
          if ex = DoesNotExist then (Inl AIGradingRequestError, s)
          else if ex = DatabaseError then (Inl AIGradingInternalError, logger_exception s)
          else (Inl (Uncaught ex), s)
      | Inr workflow \<Rightarrow>
          (case AIGradingWorkflow.classifier_set workflow of
             None \<Rightarrow> (Inl AIGradingInternalError, logger_exception s)
           | Some cs \<Rightarrow>
               (case classifiers_dict cs of
                  Inl ex \<Rightarrow>
                    if ex = ValueError \<or> ex = IOError \<or> ex = DatabaseError
                    then (Inl AIGradingInternalError, logger_exception s)
                    else (Inl (Uncaught ex), s)
                | Inr d \<Rightarrow>
                    (Inr [''essay_text'' \<mapsto> PyStr (essay_text workflow),
                          ''classifier_set'' \<mapsto> PyDict d,
                          ''algorithm_id'' \<mapsto> PyStr (AIGradingWorkflow.algorithm_id workflow)],
                     s))))"

subsection \<open>\<^verbatim>\<open>create_assessment\<close>\<close>

text \<open>
  After the lookup (handled as above), the workflow is completed only when it is not
  complete yet; a \<^verbatim>\<open>DatabaseError\<close> of the completion is logged and becomes an
  internal error, any other exception is not caught. The function returns
  \<^verbatim>\<open>None\<close>.
\<close>

definition create_assessment ::
  "state \<Rightarrow> uuid \<Rightarrow> (string \<rightharpoonup> int) \<Rightarrow> (error + unit) \<times> state" where
  "create_assessment s grading_workflow_uuid criterion_scores =
     (case AIGradingWorkflow_objects_get s grading_workflow_uuid of
        Inl ex \<Rightarrow>
          if ex = DoesNotExist then (Inl AIGradingRequestError, s)
          else if ex = DatabaseError then (Inl AIGradingInternalError, logger_exception s)
          else (Inl (Uncaught ex), s)
      | Inr workflow \<Rightarrow>
          if \<not> AIGradingWorkflow.is_complete workflow
          then (case AIGradingWorkflow_complete s grading_workflow_uuid workflow criterion_scores of
                  (Inl ex, s') \<Rightarrow>
                    if ex = DatabaseError then (Inl AIGradingInternalError, logger_exception s')
                    else (Inl (Uncaught ex), s')
                | (Inr _, s') \<Rightarrow> (Inr (), s'))
          else (Inr (), s))"

subsection \<open>\<^verbatim>\<open>get_training_task_params\<close>\<close>

text \<open>
  The text of an example: \<^verbatim>\<open>answer.get('answer', '')\<close> when the answer is a dict,
  the answer itself otherwise.
\<close>

definition example_text :: "pyval \<Rightarrow> pyval" where
  "example_text ans =
     (case ans of
        PyDict d \<Rightarrow> (case d ''answer'' of None \<Rightarrow> PyStr '''' | Some v \<Rightarrow> v)
      | _ \<Rightarrow> ans)"

text \<open>
  The dict comprehension over \<^verbatim>\<open>example.options_selected.all()\<close>: the options are
  entered in order, a later option with the same criterion name replaces an earlier
  one.
\<close>

fun example_scores :: "pydict \<Rightarrow> criterion_option list \<Rightarrow> pydict" where
  "example_scores scores [] = scores"
| "example_scores scores (option # options) =
     example_scores (scores(name (criterion option) \<mapsto> PyInt (points option))) options"

text \<open>The loop over the training examples, appending to \<^verbatim>\<open>returned_examples\<close>.\<close>

fun returned_examples_loop :: "pyval list \<Rightarrow> training_example list \<Rightarrow> pyval list" where
  "returned_examples_loop returned_examples [] = returned_examples"
| "returned_examples_loop returned_examples (example # examples) =
     returned_examples_loop
       (returned_examples @
          [PyDict [''text'' \<mapsto> example_text (answer example),
                   ''scores'' \<mapsto> PyDict (example_scores Map.empty (options_selected example))]])
       examples"

definition get_training_task_params :: "state \<Rightarrow> uuid \<Rightarrow> (error + pydict) \<times> state" where
  "get_training_task_params s training_workflow_uuid =
     (case AITrainingWorkflow_objects_get s training_workflow_uuid of
        Inl ex \<Rightarrow>
          if ex = DoesNotExist then (Inl AITrainingRequestError, s)
          else if ex = DatabaseError then (Inl AITrainingInternalError, logger_exception s)
          else (Inl (Uncaught ex), s)
      | Inr workflow \<Rightarrow>
          (Inr [''training_examples'' \<mapsto>
                  PyList (returned_examples_loop [] (training_examples workflow)),
                ''algorithm_id'' \<mapsto> PyStr (AITrainingWorkflow.algorithm_id workflow)],
           s))"

subsection \<open>\<^verbatim>\<open>create_classifiers\<close>\<close>

text \<open>
  One \<^verbatim>\<open>try\<close> holds the lookup and the completion; its \<^verbatim>\<open>except\<close> clauses, in
  the order of the source. The last clause of the source, a second
  \<^verbatim>\<open>except DatabaseError\<close>, can never be reached.
\<close>

fun create_classifiers_except :: "exn \<Rightarrow> state \<Rightarrow> (error + unit) \<times> state" where
  "create_classifiers_except DoesNotExist s = (Inl AITrainingRequestError, s)"
| "create_classifiers_except NoTrainingExamples s =
     (Inl AITrainingInternalError, logger_exception s)"
| "create_classifiers_except IncompleteClassifierSet s = (Inl AITrainingRequestError, s)"
| "create_classifiers_except ClassifierSerializeError s =
     (Inl AITrainingInternalError, logger_exception s)"
| "create_classifiers_except ClassifierUploadError s =
     (Inl AITrainingInternalError, logger_exception s)"
| "create_classifiers_except DatabaseError s =
     (Inl AITrainingInternalError, logger_exception s)"
| "create_classifiers_except ex s = (Inl (Uncaught ex), s)"

definition create_classifiers :: "state \<Rightarrow> uuid \<Rightarrow> pydict \<Rightarrow> (error + unit) \<times> state" where
  "create_classifiers s training_workflow_uuid classifiers =
     (case AITrainingWorkflow_objects_get s training_workflow_uuid of
        Inl ex \<Rightarrow> create_classifiers_except ex s
      | Inr workflow \<Rightarrow>
          if AITrainingWorkflow.is_complete workflow
          then (Inr (), logger_warning s)
          else (case AITrainingWorkflow_complete s training_workflow_uuid workflow classifiers of
                  (Inl ex, s') \<Rightarrow> create_classifiers_except ex s'
                | (Inr _, s') \<Rightarrow> (Inr (), s')))"

subsection \<open>The returned training examples, as specified\<close>

text \<open>
  The description of one returned example, in the words of the specification and not
  of the code, to be compared with what \<^verbatim>\<open>get_training_task_params\<close> computes: a
  dict with a text and the scores. The text is the answer itself when the answer is
  not a dict, \<^verbatim>\<open>answer['answer']\<close> when it is a dict with that key, and the empty
  string when it is a dict without it. The scores have the criterion names of the
  selected options as their keys, every score is the points of a selected option of
  that criterion, and the name of a selected option is mapped to that option's points
  (among the selected options of one example a criterion name stands for one number of
  points: a dict holds one value per key).
\<close>

definition example_as_specified :: "training_example \<Rightarrow> pyval \<Rightarrow> bool" where
  "example_as_specified example returned =
     (\<exists>txt scores.
        returned = PyDict [''text'' \<mapsto> txt, ''scores'' \<mapsto> PyDict scores] \<and>
        (\<forall>d v. answer example = PyDict d \<and> d ''answer'' = Some v \<longrightarrow> txt = v) \<and>
        (\<forall>d. answer example = PyDict d \<and> d ''answer'' = None \<longrightarrow> txt = PyStr []) \<and>
        ((\<forall>d. answer example \<noteq> PyDict d) \<longrightarrow> txt = answer example) \<and>
        dom scores = (\<lambda>option. name (criterion option)) ` set (options_selected example) \<and>
        (\<forall>c v. scores c = Some v \<longrightarrow>
           (\<exists>option \<in> set (options_selected example).
              name (criterion option) = c \<and> v = PyInt (points option))) \<and>
        (\<forall>option \<in> set (options_selected example).
           (\<forall>other \<in> set (options_selected example).
              name (criterion other) = name (criterion option) \<longrightarrow> points other = points option)
           \<longrightarrow> scores (name (criterion option)) = Some (PyInt (points option))))"

section \<open>The student training step\<close>

text \<open>
  Modelled from the spec: the \<^verbatim>\<open>training_assess\<close> handler of the XBlock and the
  \<^verbatim>\<open>StudentTrainingWorkflow\<close> model are not among the sources; only their tests
  (\<^verbatim>\<open>xblock/test/test_student_training.py\<close>) are. The spec says that the workflow
  tracks "how many training examples have been completed" and "advances only when the
  learner's selected rubric options exactly match the instructor-defined correct answer
  for the current example". The tests add the failures: a request without an
  \<^verbatim>\<open>options_selected\<close> dict, a learner without a submission, and a selection that names
  a criterion or an option the rubric does not have. A request that arrives when no
  example is left fails as well.
\<close>

record student_training_example =
  training_essay :: pyval
  correct_options :: pydict

record xblock =
  rubric_options :: "string \<rightharpoonup> string list"
  student_training_examples :: "student_training_example list"
  has_submission :: bool
  num_completed :: nat

record response =
  success :: bool
  correct :: "bool option"

definition valid_options :: "(string \<rightharpoonup> string list) \<Rightarrow> pydict \<Rightarrow> bool" where
  "valid_options rubric_opts selected =
     (\<forall>c \<in> dom selected.
        case rubric_opts c of
          None \<Rightarrow> False
        | Some names \<Rightarrow> selected c \<in> (\<lambda>n. Some (PyStr n)) ` set names)"

definition training_assess :: "xblock \<Rightarrow> pydict \<Rightarrow> response \<times> xblock" where
  "training_assess xb data =
     (case data ''options_selected'' of
        Some (PyDict selected) \<Rightarrow>
          if \<not> has_submission xb then (\<lparr>success = False, correct = None\<rparr>, xb)
          else if length (student_training_examples xb) \<le> num_completed xb
          then (\<lparr>success = False, correct = None\<rparr>, xb)
          else if \<not> valid_options (rubric_options xb) selected
          then (\<lparr>success = False, correct = None\<rparr>, xb)
          else if selected = correct_options (student_training_examples xb ! num_completed xb)
          then (\<lparr>success = True, correct = Some True\<rparr>,
                xb\<lparr>num_completed := Suc (num_completed xb)\<rparr>)
          else (\<lparr>success = True, correct = Some False\<rparr>, xb)
      | _ \<Rightarrow> (\<lparr>success = False, correct = None\<rparr>, xb))"

text \<open>
  Modelled from the spec: \<^verbatim>\<open>training_path_and_context\<close> is not among the sources. The
  tests render the step while examples are left, with \<^verbatim>\<open>training_num_completed\<close>
  and \<^verbatim>\<open>training_essay\<close> in the context, and expect
  \<^verbatim>\<open>student_training_complete.html\<close> with an empty context after the last example.
\<close>

datatype training_view =
    StudentTraining nat pyval
  | StudentTrainingComplete

definition training_path_and_context :: "xblock \<Rightarrow> training_view" where
  "training_path_and_context xb =
     (if num_completed xb < length (student_training_examples xb)
      then StudentTraining (num_completed xb)
             (training_essay (student_training_examples xb ! num_completed xb))
      else StudentTrainingComplete)"

section \<open>Sample data\<close>

text \<open>
  The training workflow of the docstring of \<^verbatim>\<open>get_training_task_params\<close>: two
  examples scored on vocabulary and grammar, the second with its answer in a dict.
\<close>

definition sample_option :: "string \<Rightarrow> int \<Rightarrow> criterion_option" where
  "sample_option c p = \<lparr>criterion = \<lparr>name = c\<rparr>, points = p\<rparr>"

definition sample_examples :: "training_example list" where
  "sample_examples =
     [\<lparr>answer = PyStr ''Example answer number one'',
       options_selected = [sample_option ''vocabulary'' 1, sample_option ''grammar'' 2]\<rparr>,
      \<lparr>answer = PyDict [''answer'' \<mapsto> PyStr ''Example answer number two''],
       options_selected = [sample_option ''vocabulary'' 3, sample_option ''grammar'' 1]\<rparr>,
      \<lparr>answer = PyDict Map.empty,
       options_selected = []\<rparr>]"

definition sample_classifiers :: pydict where
  "sample_classifiers = [''vocabulary'' \<mapsto> PyStr ''v-classifier'', ''grammar'' \<mapsto> PyStr ''g-classifier'']"

definition untrained_workflow :: AITrainingWorkflow where
  "untrained_workflow =
     \<lparr>training_examples = sample_examples, rubric = [''vocabulary'', ''grammar''],
      algorithm_id = ''ease'', classifier_set = None, is_complete = False\<rparr>"

definition trained_workflow :: AITrainingWorkflow where
  "trained_workflow =
     \<lparr>training_examples = sample_examples, rubric = [''vocabulary'', ''grammar''],
      algorithm_id = ''ease'',
      classifier_set = Some \<lparr>classifiers_dict = Inr sample_classifiers\<rparr>,
      is_complete = True\<rparr>"

definition empty_workflow :: AITrainingWorkflow where
  "empty_workflow =
     \<lparr>training_examples = [], rubric = [''vocabulary'', ''grammar''],
      algorithm_id = ''ease'', classifier_set = None, is_complete = False\<rparr>"

definition pending_grading :: AIGradingWorkflow where
  "pending_grading =
     \<lparr>essay_text = ''An essay'', algorithm_id = ''ease'',
      classifier_set = Some \<lparr>classifiers_dict = Inr sample_classifiers\<rparr>,
      is_complete = False, assessment = None\<rparr>"

definition sample_scores :: "string \<rightharpoonup> int" where
  "sample_scores = [''vocabulary'' \<mapsto> 2, ''grammar'' \<mapsto> 3]"

definition completed_grading :: AIGradingWorkflow where
  "completed_grading =
     pending_grading\<lparr>AIGradingWorkflow.is_complete := True, assessment := Some sample_scores\<rparr>"

definition unclassified_grading :: AIGradingWorkflow where
  "unclassified_grading =
     \<lparr>essay_text = ''Another essay'', algorithm_id = ''ease'',
      classifier_set = None, is_complete = False, assessment = None\<rparr>"

definition sample_state :: state where
  "sample_state =
     \<lparr>grading_workflows = [''g-pending'' \<mapsto> pending_grading, ''g-none'' \<mapsto> unclassified_grading],
      training_workflows = [''abcd1234'' \<mapsto> untrained_workflow, ''t-done'' \<mapsto> trained_workflow,
                            ''t-empty'' \<mapsto> empty_workflow],
      db_read_error = False, db_write_error = False, log_records = []\<rparr>"

definition completed_state :: state where
  "completed_state =
     sample_state\<lparr>grading_workflows :=
       (grading_workflows sample_state)(''g-pending'' \<mapsto> completed_grading)\<rparr>"

text \<open>
  A grading workflow whose classifier set is attached but cannot be read: loading the
  serialized classifiers raises \<^verbatim>\<open>ValueError\<close>.
\<close>

definition unreadable_grading :: AIGradingWorkflow where
  "unreadable_grading =
     \<lparr>essay_text = ''An essay'', algorithm_id = ''ease'',
      classifier_set = Some \<lparr>classifiers_dict = Inl ValueError\<rparr>,
      is_complete = False, assessment = None\<rparr>"

definition unreadable_state :: state where
  "unreadable_state =
     sample_state\<lparr>grading_workflows :=
       (grading_workflows sample_state)(''g-unreadable'' \<mapsto> unreadable_grading)\<rparr>"

text \<open>
  The scenario of the student training tests: two examples, the first scored
  Vocabulary Good and Grammar Excellent, the second Vocabulary Excellent and Grammar
  Poor.
\<close>

definition test_xblock :: xblock where
  "test_xblock =
     \<lparr>rubric_options = [''Vocabulary'' \<mapsto> [''Poor'', ''Good'', ''Excellent''],
                         ''Grammar'' \<mapsto> [''Poor'', ''Good'', ''Excellent'']],
      student_training_examples =
        [\<lparr>training_essay = PyStr ''first essay'',
          correct_options = [''Vocabulary'' \<mapsto> PyStr ''Good'', ''Grammar'' \<mapsto> PyStr ''Excellent'']\<rparr>,
         \<lparr>training_essay = PyStr ''second essay'',
          correct_options = [''Vocabulary'' \<mapsto> PyStr ''Excellent'', ''Grammar'' \<mapsto> PyStr ''Poor'']\<rparr>],
      has_submission = True,
      num_completed = 0\<rparr>"

definition select :: "string \<Rightarrow> string \<Rightarrow> pydict" where
  "select vocabulary grammar =
     [''options_selected'' \<mapsto>
        PyDict [''Vocabulary'' \<mapsto> PyStr vocabulary, ''Grammar'' \<mapsto> PyStr grammar]]"

section \<open>Auxiliary facts\<close>

text \<open>
  Throughout, "the workflow with this UUID exists" means that the lookup
  \<^verbatim>\<open>objects.get(uuid=...)\<close> returns it, and "no workflow matches the UUID" that the
  lookup raises \<^verbatim>\<open>DoesNotExist\<close>. A failed query is neither: it is the
  \<^verbatim>\<open>DatabaseError\<close> branch of each function.
\<close>

lemma objects_get_logger:
  "AITrainingWorkflow_objects_get (logger_exception s) u = AITrainingWorkflow_objects_get s u"
  "AITrainingWorkflow_objects_get (logger_warning s) u = AITrainingWorkflow_objects_get s u"
  "AIGradingWorkflow_objects_get (logger_exception s) u = AIGradingWorkflow_objects_get s u"
  "AIGradingWorkflow_objects_get (logger_warning s) u = AIGradingWorkflow_objects_get s u"
  by (simp_all add: AITrainingWorkflow_objects_get_def AIGradingWorkflow_objects_get_def
      logger_exception_def logger_warning_def)

lemma sample_grading_get:
  "AIGradingWorkflow_objects_get sample_state ''g-pending'' = Inr pending_grading"
  "AIGradingWorkflow_objects_get sample_state ''g-none'' = Inr unclassified_grading"
  "AIGradingWorkflow_objects_get sample_state ''missing'' = Inl DoesNotExist"
  "AIGradingWorkflow_objects_get completed_state ''g-pending'' = Inr completed_grading"
  by (simp_all add: AIGradingWorkflow_objects_get_def sample_state_def completed_state_def)

lemma sample_training_get:
  "AITrainingWorkflow_objects_get sample_state ''abcd1234'' = Inr untrained_workflow"
  "AITrainingWorkflow_objects_get sample_state ''t-done'' = Inr trained_workflow"
  "AITrainingWorkflow_objects_get sample_state ''t-empty'' = Inr empty_workflow"
  "AITrainingWorkflow_objects_get sample_state ''missing'' = Inl DoesNotExist"
  by (simp_all add: AITrainingWorkflow_objects_get_def sample_state_def)

lemma returned_examples_loop_map:
  "returned_examples_loop acc examples =
     acc @ map (\<lambda>example.
        PyDict [''text'' \<mapsto> example_text (answer example),
                ''scores'' \<mapsto> PyDict (example_scores Map.empty (options_selected example))])
       examples"
  by (induction examples arbitrary: acc) simp_all

lemma example_scores_map_of:
  "example_scores scores options =
     scores ++ map_of (rev (map (\<lambda>option. (name (criterion option), PyInt (points option))) options))"
  by (induction options arbitrary: scores) (simp_all add: map_of_append)

lemma example_scores_dom:
  "dom (example_scores Map.empty options) = (\<lambda>option. name (criterion option)) ` set options"
  by (simp add: example_scores_map_of dom_map_of_conv_image_fst image_image)

lemma example_scores_value:
  assumes "example_scores Map.empty options c = Some v"
  shows "\<exists>option \<in> set options. name (criterion option) = c \<and> v = PyInt (points option)"
proof -
  from assms have "(c, v) \<in> set (rev (map (\<lambda>option. (name (criterion option), PyInt (points option))) options))"
    unfolding example_scores_map_of by (intro map_of_SomeD) simp
  then show ?thesis by auto
qed

lemma example_scores_option:
  assumes "option \<in> set options"
    and "\<forall>other \<in> set options.
           name (criterion other) = name (criterion option) \<longrightarrow> points other = points option"
  shows "example_scores Map.empty options (name (criterion option)) = Some (PyInt (points option))"
proof -
  from assms(1) have "name (criterion option) \<in> dom (example_scores Map.empty options)"
    unfolding example_scores_dom by blast
  then obtain v where v: "example_scores Map.empty options (name (criterion option)) = Some v"
    by blast
  from example_scores_value [OF v] assms(2) show ?thesis using v by auto
qed

lemma example_text_dict_key: "d ''answer'' = Some v \<Longrightarrow> example_text (PyDict d) = v"
  by (simp add: example_text_def)

lemma example_text_dict_default: "d ''answer'' = None \<Longrightarrow> example_text (PyDict d) = PyStr ''''"
  by (simp add: example_text_def)

lemma example_text_other: "\<forall>d. a \<noteq> PyDict d \<Longrightarrow> example_text a = a"
  by (cases a) (auto simp: example_text_def)


section \<open>Completion of a grading workflow\<close>

text \<open>
  Claim C1. \<^verbatim>\<open>create_assessment\<close> is idempotent under duplicate task delivery. For a
  grading workflow that is already marked complete, a call with its UUID and any
  criterion scores completes nothing, leaves the whole state (the workflow, its
  recorded scores and its completion mark included) as it was, and returns
  \<^verbatim>\<open>None\<close>. And whenever a call has returned, the workflow is marked complete and
  a further call, with the same or with other scores, returns \<^verbatim>\<open>None\<close> and changes
  nothing: the workflow is completed once.
\<close>

theorem create_assessment_idempotent:
  "(AIGradingWorkflow_objects_get s u = Inr w \<and> AIGradingWorkflow.is_complete w
      \<longrightarrow> create_assessment s u scores = (Inr (), s)) \<and>
   (create_assessment s u scores = (Inr (), s')
      \<longrightarrow> (\<exists>w'. AIGradingWorkflow_objects_get s' u = Inr w' \<and> AIGradingWorkflow.is_complete w')
          \<and> create_assessment s' u scores' = (Inr (), s'))"
  by (auto simp: create_assessment_def AIGradingWorkflow_objects_get_def
      AIGradingWorkflow_complete_def split: sum.splits if_splits option.splits prod.splits)

theorem create_assessment_idempotent_witness:
  "create_assessment sample_state ''g-pending'' sample_scores = (Inr (), completed_state) \<and>
   AIGradingWorkflow_objects_get completed_state ''g-pending'' = Inr completed_grading \<and>
   AIGradingWorkflow.is_complete completed_grading \<and>
   create_assessment completed_state ''g-pending'' sample_scores = (Inr (), completed_state) \<and>
   create_assessment completed_state ''g-pending'' Map.empty = (Inr (), completed_state)"
proof -
  have pending: "\<not> AIGradingWorkflow.is_complete pending_grading"
    by (simp add: pending_grading_def)
  have writable: "\<not> db_write_error sample_state"
    by (simp add: sample_state_def)
  have completion: "AIGradingWorkflow_complete sample_state ''g-pending'' pending_grading sample_scores
      = (Inr (), completed_state)"
    by (simp add: AIGradingWorkflow_complete_def writable completed_state_def completed_grading_def)
  have first: "create_assessment sample_state ''g-pending'' sample_scores = (Inr (), completed_state)"
    by (simp add: create_assessment_def sample_grading_get pending completion)
  have marked: "AIGradingWorkflow.is_complete completed_grading"
    by (simp add: completed_grading_def)
  from create_assessment_idempotent
         [where s = sample_state and u = "''g-pending''" and scores = sample_scores
            and s' = completed_state and scores' = sample_scores] first
  have again: "create_assessment completed_state ''g-pending'' sample_scores = (Inr (), completed_state)"
    by blast
  from create_assessment_idempotent
         [where s = completed_state and u = "''g-pending''" and w = completed_grading
            and scores = Map.empty] sample_grading_get(4) marked
  have other: "create_assessment completed_state ''g-pending'' Map.empty = (Inr (), completed_state)"
    by blast
  from first sample_grading_get(4) marked again other show ?thesis by blast
qed

section \<open>Completion of a training workflow\<close>

text \<open>
  Claim C2. For a training workflow whose \<^verbatim>\<open>is_complete\<close> flag is set,
  \<^verbatim>\<open>create_classifiers\<close> with its UUID and any classifier set does not complete it
  again: it returns \<^verbatim>\<open>None\<close>, the only change of the state is one warning appended
  to the log, and the stored workflow, with its classifier set, is the same.
\<close>

theorem create_classifiers_duplicate_noop:
  assumes "AITrainingWorkflow_objects_get s u = Inr w"
    and "AITrainingWorkflow.is_complete w"
  shows "create_classifiers s u classifiers = (Inr (), logger_warning s) \<and>
         log_records (logger_warning s) = log_records s @ [LogWarning] \<and>
         training_workflows (logger_warning s) = training_workflows s \<and>
         grading_workflows (logger_warning s) = grading_workflows s \<and>
         AITrainingWorkflow_objects_get (logger_warning s) u = Inr w"
  using assms by (simp add: create_classifiers_def objects_get_logger) (simp add: logger_warning_def)

theorem create_classifiers_duplicate_noop_witness:
  "AITrainingWorkflow_objects_get sample_state ''t-done'' = Inr trained_workflow \<and>
   AITrainingWorkflow.is_complete trained_workflow \<and>
   create_classifiers sample_state ''t-done'' Map.empty = (Inr (), logger_warning sample_state) \<and>
   log_records (logger_warning sample_state) = [LogWarning] \<and>
   AITrainingWorkflow_objects_get (logger_warning sample_state) ''t-done'' = Inr trained_workflow"
proof -
  have finished: "AITrainingWorkflow.is_complete trained_workflow"
    by (simp add: trained_workflow_def)
  from create_classifiers_duplicate_noop [OF sample_training_get(2) finished, of Map.empty]
  show ?thesis using sample_training_get(2) finished by (simp add: sample_state_def)
qed

section \<open>The parameters of a grading task\<close>

text \<open>
  Claim C3. For a grading workflow that exists and whose classifier set is
  \<^verbatim>\<open>None\<close>, \<^verbatim>\<open>get_grading_task_params\<close> raises \<^verbatim>\<open>AIGradingInternalError\<close>, not
  \<^verbatim>\<open>AIGradingRequestError\<close>, after logging the failure; it returns nothing.
\<close>

theorem get_grading_task_params_no_classifier_set:
  assumes "AIGradingWorkflow_objects_get s u = Inr w"
    and "AIGradingWorkflow.classifier_set w = None"
  shows "get_grading_task_params s u = (Inl AIGradingInternalError, logger_exception s) \<and>
         fst (get_grading_task_params s u) \<noteq> Inl AIGradingRequestError"
  using assms by (simp add: get_grading_task_params_def)

theorem get_grading_task_params_no_classifier_set_witness:
  "AIGradingWorkflow_objects_get sample_state ''g-none'' = Inr unclassified_grading \<and>
   AIGradingWorkflow.classifier_set unclassified_grading = None \<and>
   get_grading_task_params sample_state ''g-none'' =
     (Inl AIGradingInternalError, logger_exception sample_state)"
proof -
  have none: "AIGradingWorkflow.classifier_set unclassified_grading = None"
    by (simp add: unclassified_grading_def)
  from get_grading_task_params_no_classifier_set [OF sample_grading_get(2) none]
  show ?thesis using sample_grading_get(2) none by simp
qed

text \<open>
  Claim C5, with the condition the code adds. For a grading workflow that exists and
  has a classifier set whose serialized classifiers can be read (reading
  \<^verbatim>\<open>classifiers_dict\<close> raises nothing and gives the mapping \<open>m\<close> from criterion names
  to serialized classifiers), \<^verbatim>\<open>get_grading_task_params\<close> returns a dict with
  exactly the keys \<^verbatim>\<open>essay_text\<close>, \<^verbatim>\<open>classifier_set\<close> and \<^verbatim>\<open>algorithm_id\<close>,
  holding the workflow's essay text, the mapping \<open>m\<close> and the workflow's algorithm
  identifier; the state is the same after the call.
\<close>

theorem get_grading_task_params_returns:
  assumes "AIGradingWorkflow_objects_get s u = Inr w"
    and "AIGradingWorkflow.classifier_set w = Some cs"
    and "classifiers_dict cs = Inr m"
  shows "\<exists>params.
           get_grading_task_params s u = (Inr params, s) \<and>
           dom params = {''essay_text'', ''classifier_set'', ''algorithm_id''} \<and>
           params ''essay_text'' = Some (PyStr (essay_text w)) \<and>
           params ''classifier_set'' = Some (PyDict m) \<and>
           params ''algorithm_id'' = Some (PyStr (AIGradingWorkflow.algorithm_id w))"
  using assms by (auto simp: get_grading_task_params_def)

theorem get_grading_task_params_returns_witness:
  "AIGradingWorkflow_objects_get sample_state ''g-pending'' = Inr pending_grading \<and>
   AIGradingWorkflow.classifier_set pending_grading =
     Some \<lparr>classifiers_dict = Inr sample_classifiers\<rparr> \<and>
   (\<exists>params.
      get_grading_task_params sample_state ''g-pending'' = (Inr params, sample_state) \<and>
      dom params = {''essay_text'', ''classifier_set'', ''algorithm_id''} \<and>
      params ''essay_text'' = Some (PyStr ''An essay'') \<and>
      params ''classifier_set'' = Some (PyDict sample_classifiers) \<and>
      params ''algorithm_id'' = Some (PyStr ''ease''))"
proof -
  have attached: "AIGradingWorkflow.classifier_set pending_grading =
      Some \<lparr>classifiers_dict = Inr sample_classifiers\<rparr>"
    by (simp add: pending_grading_def)
  have readable:
    "classifiers_dict \<lparr>classifiers_dict = Inr sample_classifiers\<rparr> = Inr sample_classifiers"
    by simp
  from get_grading_task_params_returns [OF sample_grading_get(1) attached readable]
  have "\<exists>params.
      get_grading_task_params sample_state ''g-pending'' = (Inr params, sample_state) \<and>
      dom params = {''essay_text'', ''classifier_set'', ''algorithm_id''} \<and>
      params ''essay_text'' = Some (PyStr ''An essay'') \<and>
      params ''classifier_set'' = Some (PyDict sample_classifiers) \<and>
      params ''algorithm_id'' = Some (PyStr ''ease'')"
    by (simp add: pending_grading_def)
  with sample_grading_get(1) attached show ?thesis by blast
qed

text \<open>
  A classifier set that is not \<^verbatim>\<open>None\<close> is not enough for the call to return. The
  dict is built inside \<^verbatim>\<open>try\<close> with
  \<^verbatim>\<open>except (ValueError, IOError, DatabaseError)\<close>: for the workflow
  \<open>unreadable_grading\<close>, which exists and has a classifier set, reading the
  classifiers raises \<^verbatim>\<open>ValueError\<close>, and the call logs the failure and raises
  \<^verbatim>\<open>AIGradingInternalError\<close>. No dict is returned, and the log has grown.
\<close>

theorem get_grading_task_params_unreadable_counterexample:
  "AIGradingWorkflow_objects_get unreadable_state ''g-unreadable'' = Inr unreadable_grading \<and>
   AIGradingWorkflow.classifier_set unreadable_grading =
     Some \<lparr>classifiers_dict = Inl ValueError\<rparr> \<and>
   get_grading_task_params unreadable_state ''g-unreadable'' =
     (Inl AIGradingInternalError, logger_exception unreadable_state) \<and>
   log_records (logger_exception unreadable_state) = log_records unreadable_state @ [LogException]"
proof -
  have found: "AIGradingWorkflow_objects_get unreadable_state ''g-unreadable'' = Inr unreadable_grading"
    by (simp add: AIGradingWorkflow_objects_get_def unreadable_state_def sample_state_def)
  have attached: "AIGradingWorkflow.classifier_set unreadable_grading =
      Some \<lparr>classifiers_dict = Inl ValueError\<rparr>"
    by (simp add: unreadable_grading_def)
  have raised: "get_grading_task_params unreadable_state ''g-unreadable'' =
      (Inl AIGradingInternalError, logger_exception unreadable_state)"
    by (simp add: get_grading_task_params_def found attached)
  have logged: "log_records (logger_exception unreadable_state) =
      log_records unreadable_state @ [LogException]"
    by (simp add: logger_exception_def)
  from found attached raised logged show ?thesis by blast
qed

section \<open>Unknown UUIDs\<close>

text \<open>
  Claim C8. For a UUID that matches no stored workflow, each of the four operations
  raises the request error of its kind (\<^verbatim>\<open>AIGradingRequestError\<close> for
  \<^verbatim>\<open>get_grading_task_params\<close> and \<^verbatim>\<open>create_assessment\<close>,
  \<^verbatim>\<open>AITrainingRequestError\<close> for \<^verbatim>\<open>get_training_task_params\<close> and
  \<^verbatim>\<open>create_classifiers\<close>), not the internal error, and the state, log included, is
  left as it was.
\<close>

theorem unknown_uuid_request_error:
  "(AIGradingWorkflow_objects_get s u = Inl DoesNotExist \<longrightarrow>
      get_grading_task_params s u = (Inl AIGradingRequestError, s) \<and>
      create_assessment s u scores = (Inl AIGradingRequestError, s)) \<and>
   (AITrainingWorkflow_objects_get s u = Inl DoesNotExist \<longrightarrow>
      get_training_task_params s u = (Inl AITrainingRequestError, s) \<and>
      create_classifiers s u classifiers = (Inl AITrainingRequestError, s))"
  by (simp add: get_grading_task_params_def create_assessment_def
      get_training_task_params_def create_classifiers_def)

theorem unknown_uuid_request_error_witness:
  "AIGradingWorkflow_objects_get sample_state ''missing'' = Inl DoesNotExist \<and>
   AITrainingWorkflow_objects_get sample_state ''missing'' = Inl DoesNotExist \<and>
   get_grading_task_params sample_state ''missing'' = (Inl AIGradingRequestError, sample_state) \<and>
   create_assessment sample_state ''missing'' sample_scores =
     (Inl AIGradingRequestError, sample_state) \<and>
   get_training_task_params sample_state ''missing'' =
     (Inl AITrainingRequestError, sample_state) \<and>
   create_classifiers sample_state ''missing'' sample_classifiers =
     (Inl AITrainingRequestError, sample_state)"
  using unknown_uuid_request_error
          [where s = sample_state and u = "''missing''" and scores = sample_scores
             and classifiers = sample_classifiers]
        sample_grading_get(3) sample_training_get(4)
  by blast

section \<open>Failed completion of a training workflow\<close>

text \<open>
  Claim C4. A training workflow cannot be marked complete without a training example:
  for an incomplete training workflow with no training examples, the completion raises
  \<^verbatim>\<open>NoTrainingExamples\<close>, \<^verbatim>\<open>create_classifiers\<close> logs it and raises
  \<^verbatim>\<open>AITrainingInternalError\<close>, and the stored workflow is the same, incomplete, one.
\<close>

theorem create_classifiers_no_training_examples:
  assumes "AITrainingWorkflow_objects_get s u = Inr w"
    and "\<not> AITrainingWorkflow.is_complete w"
    and "training_examples w = []"
  shows "fst (AITrainingWorkflow_complete s u w classifiers) = Inl NoTrainingExamples \<and>
         create_classifiers s u classifiers = (Inl AITrainingInternalError, logger_exception s) \<and>
         training_workflows (logger_exception s) = training_workflows s \<and>
         AITrainingWorkflow_objects_get (logger_exception s) u = Inr w"
  using assms
  by (simp add: create_classifiers_def AITrainingWorkflow_complete_def objects_get_logger)
     (simp add: logger_exception_def)

theorem create_classifiers_no_training_examples_witness:
  "AITrainingWorkflow_objects_get sample_state ''t-empty'' = Inr empty_workflow \<and>
   \<not> AITrainingWorkflow.is_complete empty_workflow \<and>
   training_examples empty_workflow = [] \<and>
   create_classifiers sample_state ''t-empty'' sample_classifiers =
     (Inl AITrainingInternalError, logger_exception sample_state) \<and>
   AITrainingWorkflow_objects_get (logger_exception sample_state) ''t-empty'' = Inr empty_workflow"
proof -
  have open_workflow: "\<not> AITrainingWorkflow.is_complete empty_workflow"
    and no_examples: "training_examples empty_workflow = []"
    by (simp_all add: empty_workflow_def)
  from create_classifiers_no_training_examples
         [OF sample_training_get(3) open_workflow no_examples, of sample_classifiers]
  show ?thesis using sample_training_get(3) open_workflow no_examples by blast
qed

text \<open>
  Claim C10. For an incomplete training workflow whose completion fails with
  \<^verbatim>\<open>IncompleteClassifierSet\<close> (the criterion names of the supplied classifier set are
  not those of the rubric), \<^verbatim>\<open>create_classifiers\<close> raises \<^verbatim>\<open>AITrainingRequestError\<close>,
  not \<^verbatim>\<open>AITrainingInternalError\<close>, and the state is left as it was: the workflow
  remains incomplete.
\<close>

theorem create_classifiers_incomplete_classifier_set:
  assumes "AITrainingWorkflow_objects_get s u = Inr w"
    and "\<not> AITrainingWorkflow.is_complete w"
    and "fst (AITrainingWorkflow_complete s u w classifiers) = Inl IncompleteClassifierSet"
  shows "create_classifiers s u classifiers = (Inl AITrainingRequestError, s) \<and>
         fst (create_classifiers s u classifiers) \<noteq> Inl AITrainingInternalError"
  using assms
  by (auto simp: create_classifiers_def AITrainingWorkflow_complete_def split: if_splits)

theorem create_classifiers_incomplete_classifier_set_witness:
  "AITrainingWorkflow_objects_get sample_state ''abcd1234'' = Inr untrained_workflow \<and>
   \<not> AITrainingWorkflow.is_complete untrained_workflow \<and>
   fst (AITrainingWorkflow_complete sample_state ''abcd1234'' untrained_workflow
          [''vocabulary'' \<mapsto> PyStr ''v-classifier'']) = Inl IncompleteClassifierSet \<and>
   create_classifiers sample_state ''abcd1234'' [''vocabulary'' \<mapsto> PyStr ''v-classifier''] =
     (Inl AITrainingRequestError, sample_state)"
proof -
  have open_workflow: "\<not> AITrainingWorkflow.is_complete untrained_workflow"
    by (simp add: untrained_workflow_def)
  have names: "dom [''vocabulary'' \<mapsto> PyStr ''v-classifier''] \<noteq> set (rubric untrained_workflow)"
    by (auto simp: untrained_workflow_def)
  have refused: "fst (AITrainingWorkflow_complete sample_state ''abcd1234'' untrained_workflow
          [''vocabulary'' \<mapsto> PyStr ''v-classifier'']) = Inl IncompleteClassifierSet"
    using names
    by (simp add: AITrainingWorkflow_complete_def)
       (simp add: untrained_workflow_def sample_examples_def)
  from create_classifiers_incomplete_classifier_set
         [OF sample_training_get(1) open_workflow refused]
  show ?thesis using sample_training_get(1) open_workflow refused by blast
qed

section \<open>The parameters of a training task\<close>

lemma returned_example_as_specified:
  "example_as_specified example
     (PyDict [''text'' \<mapsto> example_text (answer example),
              ''scores'' \<mapsto> PyDict (example_scores Map.empty (options_selected example))])"
  unfolding example_as_specified_def
proof (intro exI conjI)
  show "PyDict [''text'' \<mapsto> example_text (answer example),
              ''scores'' \<mapsto> PyDict (example_scores Map.empty (options_selected example))] =
        PyDict [''text'' \<mapsto> example_text (answer example),
              ''scores'' \<mapsto> PyDict (example_scores Map.empty (options_selected example))]" ..
  show "\<forall>d v. answer example = PyDict d \<and> d ''answer'' = Some v \<longrightarrow> example_text (answer example) = v"
    by (simp add: example_text_dict_key)
  show "\<forall>d. answer example = PyDict d \<and> d ''answer'' = None \<longrightarrow> example_text (answer example) = PyStr []"
    by (simp add: example_text_dict_default)
  show "(\<forall>d. answer example \<noteq> PyDict d) \<longrightarrow> example_text (answer example) = answer example"
    by (simp add: example_text_other)
  show "dom (example_scores Map.empty (options_selected example)) =
      (\<lambda>option. name (criterion option)) ` set (options_selected example)"
    by (rule example_scores_dom)
  show "\<forall>c v. example_scores Map.empty (options_selected example) c = Some v \<longrightarrow>
        (\<exists>option \<in> set (options_selected example).
           name (criterion option) = c \<and> v = PyInt (points option))"
    using example_scores_value by blast
  show "\<forall>option \<in> set (options_selected example).
        (\<forall>other \<in> set (options_selected example).
           name (criterion other) = name (criterion option) \<longrightarrow> points other = points option)
        \<longrightarrow> example_scores Map.empty (options_selected example) (name (criterion option))
            = Some (PyInt (points option))"
    using example_scores_option by blast
qed

lemma example_as_specifiedE:
  assumes "example_as_specified example returned"
  obtains shown scores where
    "returned = PyDict [''text'' \<mapsto> shown, ''scores'' \<mapsto> PyDict scores]"
    and "\<forall>d v. answer example = PyDict d \<and> d ''answer'' = Some v \<longrightarrow> shown = v"
    and "\<forall>d. answer example = PyDict d \<and> d ''answer'' = None \<longrightarrow> shown = PyStr []"
    and "(\<forall>d. answer example \<noteq> PyDict d) \<longrightarrow> shown = answer example"
    and "dom scores = (\<lambda>option. name (criterion option)) ` set (options_selected example)"
    and "\<forall>option \<in> set (options_selected example).
           (\<forall>other \<in> set (options_selected example).
              name (criterion other) = name (criterion option) \<longrightarrow> points other = points option)
           \<longrightarrow> scores (name (criterion option)) = Some (PyInt (points option))"
  using assms unfolding example_as_specified_def
  by (elim exE conjE) (rule that)

text \<open>
  Claim C9. \<^verbatim>\<open>get_training_task_params\<close> tolerates two shapes of answer. For a
  training workflow that exists, the call returns a dict that carries the workflow's
  algorithm identifier and one returned example for each training example, in order. The
  text of each is the example's answer when that is not a dict, \<^verbatim>\<open>answer['answer']\<close>
  when it is a dict with that key, and the empty string when it is a dict without
  it; its scores map the criterion name of every selected option to that option's
  integer points. The state is the same after the call.
\<close>

theorem get_training_task_params_examples:
  assumes "AITrainingWorkflow_objects_get s u = Inr w"
  shows "\<exists>returned.
           get_training_task_params s u =
             (Inr [''training_examples'' \<mapsto> PyList returned,
                   ''algorithm_id'' \<mapsto> PyStr (AITrainingWorkflow.algorithm_id w)], s) \<and>
           list_all2 example_as_specified (training_examples w) returned"
proof (intro exI conjI)
  show "get_training_task_params s u =
      (Inr [''training_examples'' \<mapsto> PyList (returned_examples_loop [] (training_examples w)),
            ''algorithm_id'' \<mapsto> PyStr (AITrainingWorkflow.algorithm_id w)], s)"
    using assms by (simp add: get_training_task_params_def)
  show "list_all2 example_as_specified (training_examples w)
      (returned_examples_loop [] (training_examples w))"
    by (simp add: returned_examples_loop_map list_all2_map2 list_all2_same
        returned_example_as_specified)
qed

theorem get_training_task_params_examples_witness:
  "AITrainingWorkflow_objects_get sample_state ''abcd1234'' = Inr untrained_workflow \<and>
   (\<exists>first second third scores1 scores2 scores3.
      get_training_task_params sample_state ''abcd1234'' =
        (Inr [''training_examples'' \<mapsto> PyList [first, second, third],
              ''algorithm_id'' \<mapsto> PyStr ''ease''],
         sample_state) \<and>
      first = PyDict [''text'' \<mapsto> PyStr ''Example answer number one'',
                      ''scores'' \<mapsto> PyDict scores1] \<and>
      dom scores1 = {''vocabulary'', ''grammar''} \<and>
      scores1 ''vocabulary'' = Some (PyInt 1) \<and> scores1 ''grammar'' = Some (PyInt 2) \<and>
      second = PyDict [''text'' \<mapsto> PyStr ''Example answer number two'',
                       ''scores'' \<mapsto> PyDict scores2] \<and>
      dom scores2 = {''vocabulary'', ''grammar''} \<and>
      scores2 ''vocabulary'' = Some (PyInt 3) \<and> scores2 ''grammar'' = Some (PyInt 1) \<and>
      third = PyDict [''text'' \<mapsto> PyStr [], ''scores'' \<mapsto> PyDict scores3] \<and>
      dom scores3 = {})"
proof -
  have examples: "training_examples untrained_workflow = sample_examples"
    and algorithm: "AITrainingWorkflow.algorithm_id untrained_workflow = ''ease''"
    by (simp_all add: untrained_workflow_def)
  from get_training_task_params_examples [OF sample_training_get(1)]
  obtain returned where
    run: "get_training_task_params sample_state ''abcd1234'' =
        (Inr [''training_examples'' \<mapsto> PyList returned,
              ''algorithm_id'' \<mapsto> PyStr (AITrainingWorkflow.algorithm_id untrained_workflow)],
         sample_state)"
    and all: "list_all2 example_as_specified (training_examples untrained_workflow) returned"
    by (elim exE conjE)
  from all obtain first second third where
    returned: "returned = [first, second, third]"
    and spec1: "example_as_specified
      \<lparr>answer = PyStr ''Example answer number one'',
       options_selected = [sample_option ''vocabulary'' 1, sample_option ''grammar'' 2]\<rparr> first"
    and spec2: "example_as_specified
      \<lparr>answer = PyDict [''answer'' \<mapsto> PyStr ''Example answer number two''],
       options_selected = [sample_option ''vocabulary'' 3, sample_option ''grammar'' 1]\<rparr> second"
    and spec3: "example_as_specified \<lparr>answer = PyDict Map.empty, options_selected = []\<rparr> third"
    unfolding examples sample_examples_def by (auto simp: list_all2_Cons1)
  from spec1 obtain scores1 where
    "first = PyDict [''text'' \<mapsto> PyStr ''Example answer number one'',
                     ''scores'' \<mapsto> PyDict scores1]"
    "dom scores1 = {''vocabulary'', ''grammar''}"
    "scores1 ''vocabulary'' = Some (PyInt 1)" "scores1 ''grammar'' = Some (PyInt 2)"
    by (rule example_as_specifiedE) (simp add: sample_option_def)
  moreover from spec2 obtain scores2 where
    "second = PyDict [''text'' \<mapsto> PyStr ''Example answer number two'',
                      ''scores'' \<mapsto> PyDict scores2]"
    "dom scores2 = {''vocabulary'', ''grammar''}"
    "scores2 ''vocabulary'' = Some (PyInt 3)" "scores2 ''grammar'' = Some (PyInt 1)"
    by (rule example_as_specifiedE) (simp add: sample_option_def)
  moreover from spec3 obtain scores3 where
    "third = PyDict [''text'' \<mapsto> PyStr [], ''scores'' \<mapsto> PyDict scores3]"
    "dom scores3 = {}"
    by (rule example_as_specifiedE) simp
  moreover note run [unfolded returned algorithm] sample_training_get(1)
  ultimately show ?thesis by blast
qed

section \<open>Failed reads and writes\<close>

text \<open>
  The \<^verbatim>\<open>except\<close> branches for a failing database or an unreadable classifier set:
  each is logged and raised as the internal error of the operation, and no workflow
  is changed.
\<close>

lemma database_error_on_lookup:
  assumes "db_read_error s"
  shows "get_grading_task_params s u = (Inl AIGradingInternalError, logger_exception s)"
    and "create_assessment s u scores = (Inl AIGradingInternalError, logger_exception s)"
    and "get_training_task_params s u = (Inl AITrainingInternalError, logger_exception s)"
    and "create_classifiers s u classifiers = (Inl AITrainingInternalError, logger_exception s)"
  using assms
  by (simp_all add: get_grading_task_params_def create_assessment_def
      get_training_task_params_def create_classifiers_def
      AIGradingWorkflow_objects_get_def AITrainingWorkflow_objects_get_def)

lemma unreadable_classifiers:
  assumes "AIGradingWorkflow_objects_get s u = Inr w"
    and "AIGradingWorkflow.classifier_set w = Some cs"
    and "classifiers_dict cs = Inl ex"
    and "ex = ValueError \<or> ex = IOError \<or> ex = DatabaseError"
  shows "get_grading_task_params s u = (Inl AIGradingInternalError, logger_exception s)"
  using assms by (auto simp: get_grading_task_params_def)

lemma database_error_on_completion:
  assumes "AIGradingWorkflow_objects_get s u = Inr w"
    and "\<not> AIGradingWorkflow.is_complete w"
    and "db_write_error s"
  shows "create_assessment s u scores = (Inl AIGradingInternalError, logger_exception s)"
  using assms by (simp add: create_assessment_def AIGradingWorkflow_complete_def)

lemma create_classifiers_completes:
  assumes "AITrainingWorkflow_objects_get s u = Inr w"
    and "\<not> AITrainingWorkflow.is_complete w"
    and "training_examples w \<noteq> []"
    and "dom classifiers = set (rubric w)"
    and "\<not> db_write_error s"
  shows "\<exists>s' w'. create_classifiers s u classifiers = (Inr (), s') \<and>
           AITrainingWorkflow_objects_get s' u = Inr w' \<and>
           AITrainingWorkflow.is_complete w' \<and>
           AITrainingWorkflow.classifier_set w' = Some \<lparr>classifiers_dict = Inr classifiers\<rparr>"
  using assms
  by (auto simp: create_classifiers_def AITrainingWorkflow_complete_def
      AITrainingWorkflow_objects_get_def split: if_splits)

section \<open>The student training step advances on a correct selection\<close>

lemma test_xblock_fields:
  "has_submission test_xblock"
  "num_completed test_xblock = 0"
  "length (student_training_examples test_xblock) = 2"
  "correct_options (student_training_examples test_xblock ! 0) =
     [''Vocabulary'' \<mapsto> PyStr ''Good'', ''Grammar'' \<mapsto> PyStr ''Excellent'']"
  "correct_options (student_training_examples test_xblock ! Suc 0) =
     [''Vocabulary'' \<mapsto> PyStr ''Excellent'', ''Grammar'' \<mapsto> PyStr ''Poor'']"
  "training_essay (student_training_examples test_xblock ! Suc 0) = PyStr ''second essay''"
  "rubric_options test_xblock =
     [''Vocabulary'' \<mapsto> [''Poor'', ''Good'', ''Excellent''],
      ''Grammar'' \<mapsto> [''Poor'', ''Good'', ''Excellent'']]"
  by (simp_all add: test_xblock_def)

lemma valid_selection:
  "valid_options [''Vocabulary'' \<mapsto> [''Poor'', ''Good'', ''Excellent''],
                  ''Grammar'' \<mapsto> [''Poor'', ''Good'', ''Excellent'']]
     [''Vocabulary'' \<mapsto> PyStr ''Good'', ''Grammar'' \<mapsto> PyStr ''Excellent'']"
  "valid_options [''Vocabulary'' \<mapsto> [''Poor'', ''Good'', ''Excellent''],
                  ''Grammar'' \<mapsto> [''Poor'', ''Good'', ''Excellent'']]
     [''Vocabulary'' \<mapsto> PyStr ''Excellent'', ''Grammar'' \<mapsto> PyStr ''Poor'']"
  "valid_options [''Vocabulary'' \<mapsto> [''Poor'', ''Good'', ''Excellent''],
                  ''Grammar'' \<mapsto> [''Poor'', ''Good'', ''Excellent'']]
     [''Vocabulary'' \<mapsto> PyStr ''Poor'', ''Grammar'' \<mapsto> PyStr ''Poor'']"
  "\<not> valid_options [''Vocabulary'' \<mapsto> [''Poor'', ''Good'', ''Excellent''],
                  ''Grammar'' \<mapsto> [''Poor'', ''Good'', ''Excellent'']]
     [''Bananas'' \<mapsto> PyStr ''Excellent'', ''Grammar'' \<mapsto> PyStr ''Poor'']"
  by (simp_all add: valid_options_def)

lemma selections_differ:
  "[''Vocabulary'' \<mapsto> PyStr ''Poor'', ''Grammar'' \<mapsto> PyStr ''Poor''] \<noteq>
   [''Vocabulary'' \<mapsto> PyStr ''Good'', ''Grammar'' \<mapsto> PyStr ''Excellent'']"
proof
  assume "[''Vocabulary'' \<mapsto> PyStr ''Poor'', ''Grammar'' \<mapsto> PyStr ''Poor''] =
   [''Vocabulary'' \<mapsto> PyStr ''Good'', ''Grammar'' \<mapsto> PyStr ''Excellent'']"
  then have "[''Vocabulary'' \<mapsto> PyStr ''Poor'', ''Grammar'' \<mapsto> PyStr ''Poor''] ''Grammar'' =
   [''Vocabulary'' \<mapsto> PyStr ''Good'', ''Grammar'' \<mapsto> PyStr ''Excellent''] ''Grammar''"
    by (rule arg_cong)
  then show False by simp
qed


lemma select_options:
  "select vocabulary grammar ''options_selected'' =
     Some (PyDict [''Vocabulary'' \<mapsto> PyStr vocabulary, ''Grammar'' \<mapsto> PyStr grammar])"
  by (simp add: select_def)

text \<open>
  Claim C6. The student training step advances exactly when the learner's selection
  matches the instructor's answer. For a learner with a submission and a current
  example (whose instructor-defined options are options of the rubric), a
  \<^verbatim>\<open>training_assess\<close> request whose \<^verbatim>\<open>options_selected\<close> equals the correct options
  of the current example is answered with success and correct both true, the count
  of completed examples grows by one, and the step then shows the next example, or
  the training-complete view after the last one. A request whose selection names
  criteria and options of the rubric but differs from the correct options is answered
  with success true and correct false, and the count is unchanged.
\<close>

theorem training_assess_advances:
  assumes "has_submission xb"
    and "num_completed xb < length (student_training_examples xb)"
    and "valid_options (rubric_options xb)
           (correct_options (student_training_examples xb ! num_completed xb))"
    and "data ''options_selected'' = Some (PyDict selected)"
  shows "(selected = correct_options (student_training_examples xb ! num_completed xb) \<longrightarrow>
            training_assess xb data =
              (\<lparr>success = True, correct = Some True\<rparr>,
               xb\<lparr>num_completed := Suc (num_completed xb)\<rparr>) \<and>
            training_path_and_context (snd (training_assess xb data)) =
              (if Suc (num_completed xb) < length (student_training_examples xb)
               then StudentTraining (Suc (num_completed xb))
                      (training_essay (student_training_examples xb ! Suc (num_completed xb)))
               else StudentTrainingComplete)) \<and>
         (valid_options (rubric_options xb) selected \<and>
          selected \<noteq> correct_options (student_training_examples xb ! num_completed xb) \<longrightarrow>
            training_assess xb data = (\<lparr>success = True, correct = Some False\<rparr>, xb))"
  using assms by (simp add: training_assess_def training_path_and_context_def)

theorem training_assess_advances_witness:
  "training_assess test_xblock (select ''Good'' ''Excellent'') =
     (\<lparr>success = True, correct = Some True\<rparr>, test_xblock\<lparr>num_completed := Suc 0\<rparr>) \<and>
   training_path_and_context (test_xblock\<lparr>num_completed := Suc 0\<rparr>) =
     StudentTraining (Suc 0) (PyStr ''second essay'') \<and>
   training_assess test_xblock (select ''Poor'' ''Poor'') =
     (\<lparr>success = True, correct = Some False\<rparr>, test_xblock) \<and>
   training_assess (test_xblock\<lparr>num_completed := Suc 0\<rparr>) (select ''Excellent'' ''Poor'') =
     (\<lparr>success = True, correct = Some True\<rparr>, test_xblock\<lparr>num_completed := Suc (Suc 0)\<rparr>) \<and>
   training_path_and_context (test_xblock\<lparr>num_completed := Suc (Suc 0)\<rparr>) =
     StudentTrainingComplete"
proof -
  have left: "num_completed test_xblock < length (student_training_examples test_xblock)"
    by (simp add: test_xblock_fields)
  have instructor: "valid_options (rubric_options test_xblock)
      (correct_options (student_training_examples test_xblock ! num_completed test_xblock))"
    by (simp add: test_xblock_fields valid_selection)
  have agree: "training_assess test_xblock (select ''Good'' ''Excellent'') =
      (\<lparr>success = True, correct = Some True\<rparr>, test_xblock\<lparr>num_completed := Suc 0\<rparr>)"
    and shown: "training_path_and_context (test_xblock\<lparr>num_completed := Suc 0\<rparr>) =
      StudentTraining (Suc 0) (PyStr ''second essay'')"
    using training_assess_advances
        [where xb = test_xblock and data = "select ''Good'' ''Excellent''"
           and selected = "[''Vocabulary'' \<mapsto> PyStr ''Good'', ''Grammar'' \<mapsto> PyStr ''Excellent'']",
         OF test_xblock_fields(1) left instructor select_options]
    by (auto simp: test_xblock_fields)
  have disagree: "training_assess test_xblock (select ''Poor'' ''Poor'') =
      (\<lparr>success = True, correct = Some False\<rparr>, test_xblock)"
    using training_assess_advances
        [where xb = test_xblock and data = "select ''Poor'' ''Poor''"
           and selected = "[''Vocabulary'' \<mapsto> PyStr ''Poor'', ''Grammar'' \<mapsto> PyStr ''Poor'']",
         OF test_xblock_fields(1) left instructor select_options]
      selections_differ
    by (simp add: test_xblock_fields valid_selection)
  let ?next = "test_xblock\<lparr>num_completed := Suc 0\<rparr>"
  have next_fields: "has_submission ?next"
    "num_completed ?next < length (student_training_examples ?next)"
    "valid_options (rubric_options ?next)
       (correct_options (student_training_examples ?next ! num_completed ?next))"
    by (simp_all add: test_xblock_fields valid_selection)
  have last: "training_assess ?next (select ''Excellent'' ''Poor'') =
      (\<lparr>success = True, correct = Some True\<rparr>, test_xblock\<lparr>num_completed := Suc (Suc 0)\<rparr>)"
    and finished: "training_path_and_context (test_xblock\<lparr>num_completed := Suc (Suc 0)\<rparr>) =
      StudentTrainingComplete"
    using training_assess_advances
        [where xb = ?next and data = "select ''Excellent'' ''Poor''"
           and selected = "[''Vocabulary'' \<mapsto> PyStr ''Excellent'', ''Grammar'' \<mapsto> PyStr ''Poor'']",
         OF next_fields select_options]
    by (auto simp: test_xblock_fields)
  from agree shown disagree last finished show ?thesis by blast
qed

text \<open>
  The failures that the tests \<^verbatim>\<open>test_request_error\<close>,
  \<^verbatim>\<open>test_invalid_options_dict\<close> and \<^verbatim>\<open>test_no_submission\<close> expect.
\<close>

lemma test_request_error:
  "training_assess test_xblock Map.empty = (\<lparr>success = False, correct = None\<rparr>, test_xblock)"
  "training_assess test_xblock [''options_selected'' \<mapsto> PyStr ''foo''] =
     (\<lparr>success = False, correct = None\<rparr>, test_xblock)"
  by (simp_all add: training_assess_def)

lemma test_invalid_options_dict:
  "training_assess test_xblock
     [''options_selected'' \<mapsto>
        PyDict [''Bananas'' \<mapsto> PyStr ''Excellent'', ''Grammar'' \<mapsto> PyStr ''Poor'']] =
   (\<lparr>success = False, correct = None\<rparr>, test_xblock)"
  by (simp add: training_assess_def test_xblock_fields valid_selection)

lemma test_no_submission:
  "training_assess (test_xblock\<lparr>has_submission := False\<rparr>) (select ''Excellent'' ''Poor'') =
   (\<lparr>success = False, correct = None\<rparr>, test_xblock\<lparr>has_submission := False\<rparr>)"
  by (simp add: training_assess_def select_options)

end
